theory Spec2Isabelle
  imports Main "HOL-Library.AList"
begin

section \<open>Severity levels (types/types.go)\<close>

text \<open>
  \<^verbatim>\<open>type LogLevel string\<close> and \<^verbatim>\<open>type LogCreatorName string\<close>: both are Go strings,
  so a level is any string, not only one of the seven constants.
\<close>

type_synonym LogLevel = string
type_synonym LogCreatorName = string

definition NONE :: LogLevel where "NONE = ''NONE''"
definition FATAL :: LogLevel where "FATAL = ''FATAL''"
definition ERROR :: LogLevel where "ERROR = ''ERROR''"
definition WARN :: LogLevel where "WARN = ''WARN''"
definition DEBUG :: LogLevel where "DEBUG = ''DEBUG''"
definition INFO :: LogLevel where "INFO = ''INFO''"
definition TRACE :: LogLevel where "TRACE = ''TRACE''"

definition LogLevelList :: "LogLevel list" where
  "LogLevelList = [NONE, FATAL, ERROR, WARN, DEBUG, INFO, TRACE]"

text \<open>
  \<^verbatim>\<open>func IsLogLevelAcceptable(selected, using LogLevel) bool\<close>: a switch on
  \<open>selected\<close>, each case comparing \<open>using\<close> with the levels it lets through; the
  default case (NONE and every other string) returns false.
\<close>

definition IsLogLevelAcceptable :: "LogLevel \<Rightarrow> LogLevel \<Rightarrow> bool" where
  "IsLogLevelAcceptable selected using =
     (if selected = FATAL then
        (if using = FATAL then True else False)
      else if selected = ERROR then
        (if using = FATAL \<or> using = ERROR then True else False)
      else if selected = WARN then
        (if using = FATAL \<or> using = ERROR \<or> using = WARN then True else False)
      else if selected = DEBUG then
        (if using = FATAL \<or> using = ERROR \<or> using = WARN \<or> using = DEBUG
         then True else False)
      else if selected = INFO then
        (if using = FATAL \<or> using = ERROR \<or> using = WARN \<or> using = DEBUG
            \<or> using = INFO
         then True else False)
      else if selected = TRACE then
        (if using = FATAL \<or> using = ERROR \<or> using = WARN \<or> using = DEBUG
            \<or> using = INFO \<or> using = TRACE
         then True else False)
      else False)"

text \<open>
  The ranking the specification compares levels by: FATAL = 1, ERROR = 2, WARN = 3,
  DEBUG = 4, INFO = 5, TRACE = 6. NONE and every other string have no rank. This
  definition follows the specification's words, not the code; the code above is
  compared with it.
\<close>

definition spec_rank :: "LogLevel \<Rightarrow> nat option" where
  "spec_rank lv =
     (if lv = FATAL then Some 1
      else if lv = ERROR then Some 2
      else if lv = WARN then Some 3
      else if lv = DEBUG then Some 4
      else if lv = INFO then Some 5
      else if lv = TRACE then Some 6
      else None)"

definition recordLevels :: "LogLevel list" where
  "recordLevels = [FATAL, ERROR, WARN, DEBUG, INFO, TRACE]"

text \<open>
  Modelled from the spec: the method \<^verbatim>\<open>func (l LogLevel) IsValid() bool\<close> that
  \<^verbatim>\<open>SetLogLevel\<close> calls is not among the sources; the specification gives it as
  "true iff the level is one of the seven defined constants", which are the members of
  \<^verbatim>\<open>LogLevelList\<close>.
\<close>

definition IsValid :: "LogLevel \<Rightarrow> bool" where
  "IsValid lv = (lv \<in> set LogLevelList)"

text \<open>
  Modelled from the spec: the dispatcher calls the acceptance test in method form,
  \<^verbatim>\<open>l.logLevel.IsLogLevelAcceptable(level)\<close>, and that method of \<^verbatim>\<open>LogLevel\<close>
  is not among the sources. The specification knows one acceptance rule,
  \<^verbatim>\<open>accepts(threshold, candidate)\<close>; the method is taken to be the function of
  types.go with the receiver as the selected level.
\<close>

definition method_IsLogLevelAcceptable :: "LogLevel \<Rightarrow> LogLevel \<Rightarrow> bool" where
  "method_IsLogLevelAcceptable l using = IsLogLevelAcceptable l using"

section \<open>Log creators (logcreator.go)\<close>

text \<open>
  A value of the interface \<^verbatim>\<open>LogCreator\<close> is one of four things: the nil interface;
  a non-nil interface holding a nil pointer (what \<^verbatim>\<open>reflect.ValueOf(c).IsNil()\<close>
  detects); a pointer to a live implementation, as the creators of the repository are;
  or a live implementation of a kind that has no nil, such as a struct with value
  receivers, on which \<^verbatim>\<open>reflect.Value.IsNil\<close> panics.

  Of an implementation the dispatcher sees its address (kept to tell the creators apart
  in the trace), its name, its readiness and the results of its two write methods.
  \<^verbatim>\<open>IsReady\<close> is a method like any other and may answer differently each time it is
  called: \<open>isReady s k\<close> is its answer to call number \<open>k\<close> (from 0) of one dispatch.
  The type \<open>'m\<close> stands for \<^verbatim>\<open>interface{}\<close>, the type of a message.
\<close>

record 'm creator =
  addr :: nat
  logName :: LogCreatorName
  callDepth :: int
  isReady :: "nat \<Rightarrow> bool"
  logIt :: "LogLevel \<Rightarrow> 'm \<Rightarrow> bool"
  logItWithCallDepth :: "LogLevel \<Rightarrow> int \<Rightarrow> 'm \<Rightarrow> bool"

datatype 'm LogCreator =
    NilInterface
  | NilPointer
  | Impl "'m creator"
  | ValueImpl "'m creator"

text \<open>
  What a creator receives is kept in a trace: one entry per call of a write method,
  with the address of the creator that was called.
\<close>

datatype 'm delivery =
    CallLogIt nat LogLevel 'm
  | CallLogItWithCallDepth nat LogLevel int 'm

datatype panic = IndexOutOfRange | NilDereference | ReflectValueError

text \<open>
  Method calls through the interface. A call on the nil interface panics. A call on a
  nil pointer runs the method with a nil receiver: the implementations among the
  sources read a field of the receiver in \<^verbatim>\<open>LogName\<close>, \<^verbatim>\<open>LogIt\<close> and
  \<^verbatim>\<open>LogItWithCallDepth\<close>, which panics, while \<^verbatim>\<open>FileCreator.IsReady\<close>
  returns true without touching it.
\<close>

definition call_LogName :: "'m LogCreator \<Rightarrow> panic + LogCreatorName" where
  "call_LogName c =
     (case c of
        NilInterface \<Rightarrow> Inl NilDereference
      | NilPointer \<Rightarrow> Inl NilDereference
      | Impl s \<Rightarrow> Inr (logName s)
      | ValueImpl s \<Rightarrow> Inr (logName s))"

definition call_IsReady :: "'m LogCreator \<Rightarrow> nat \<Rightarrow> panic + bool" where
  "call_IsReady c k =
     (case c of
        NilInterface \<Rightarrow> Inl NilDereference
      | NilPointer \<Rightarrow> Inr True
      | Impl s \<Rightarrow> Inr (isReady s k)
      | ValueImpl s \<Rightarrow> Inr (isReady s k))"

definition call_LogIt ::
  "'m LogCreator \<Rightarrow> LogLevel \<Rightarrow> 'm \<Rightarrow> 'm delivery list \<Rightarrow> panic + (bool \<times> 'm delivery list)" where
  "call_LogIt c level logMessage tr =
     (case c of
        NilInterface \<Rightarrow> Inl NilDereference
      | NilPointer \<Rightarrow> Inl NilDereference
      | Impl s \<Rightarrow> Inr (logIt s level logMessage, tr @ [CallLogIt (addr s) level logMessage])
      | ValueImpl s \<Rightarrow>
          Inr (logIt s level logMessage, tr @ [CallLogIt (addr s) level logMessage]))"

definition call_LogItWithCallDepth ::
  "'m LogCreator \<Rightarrow> LogLevel \<Rightarrow> int \<Rightarrow> 'm \<Rightarrow> 'm delivery list
     \<Rightarrow> panic + (bool \<times> 'm delivery list)" where
  "call_LogItWithCallDepth c level depth logMessage tr =
     (case c of
        NilInterface \<Rightarrow> Inl NilDereference
      | NilPointer \<Rightarrow> Inl NilDereference
      | Impl s \<Rightarrow>
          Inr (logItWithCallDepth s level depth logMessage,
               tr @ [CallLogItWithCallDepth (addr s) level depth logMessage])
      | ValueImpl s \<Rightarrow>
          Inr (logItWithCallDepth s level depth logMessage,
               tr @ [CallLogItWithCallDepth (addr s) level depth logMessage]))"

text \<open>The comparison \<^verbatim>\<open>c == nil\<close>: true of the nil interface only.\<close>

definition isNil :: "'m LogCreator \<Rightarrow> bool" where
  "isNil c = (case c of NilInterface \<Rightarrow> True | _ \<Rightarrow> False)"

text \<open>
  \<^verbatim>\<open>reflect.ValueOf(c).IsNil()\<close>: true of a nil pointer, false of a live pointer, a
  panic on a value of a kind without nil (and on the zero \<^verbatim>\<open>reflect.Value\<close> that the
  nil interface gives).
\<close>

definition reflect_IsNil :: "'m LogCreator \<Rightarrow> panic + bool" where
  "reflect_IsNil c =
     (case c of
        NilInterface \<Rightarrow> Inl ReflectValueError
      | NilPointer \<Rightarrow> Inr True
      | Impl s \<Rightarrow> Inr False
      | ValueImpl s \<Rightarrow> Inl ReflectValueError)"

text \<open>Go's \<^verbatim>\<open>a && b\<close> where evaluating \<open>b\<close> may panic: \<open>b\<close> runs only when \<open>a\<close> holds.\<close>

definition and_also :: "bool \<Rightarrow> panic + bool \<Rightarrow> panic + bool" where
  "and_also a b = (if a then b else Inr False)"

definition negated :: "panic + bool \<Rightarrow> panic + bool" where
  "negated b = (case b of Inl e \<Rightarrow> Inl e | Inr v \<Rightarrow> Inr (\<not> v))"

section \<open>The registry and dispatcher (logtor.go)\<close>

text \<open>
  The struct \<^verbatim>\<open>Logtor\<close>. The map is an association list kept with one entry per name
  (\<open>AList.update\<close> overwrites); \<^verbatim>\<open>changeMutex\<close> has no part in a sequential run
  and is left out.
\<close>

record 'm Logtor =
  logCreatorList :: "(LogCreatorName \<times> 'm LogCreator) list"
  logLevel :: LogLevel
  currentLogCreator :: "'m LogCreator"
  defaultCreator :: "'m LogCreator"

definition New :: "'m Logtor" where
  "New = \<lparr>logCreatorList = [], logLevel = NONE,
          currentLogCreator = NilInterface, defaultCreator = NilInterface\<rparr>"

definition WithDefaultCreator :: "'m Logtor \<Rightarrow> 'm LogCreator \<Rightarrow> 'm Logtor" where
  "WithDefaultCreator l c = l\<lparr>defaultCreator := c\<rparr>"

definition SetLogLevel :: "'m Logtor \<Rightarrow> LogLevel \<Rightarrow> bool \<times> 'm Logtor" where
  "SetLogLevel l lv = (if IsValid lv then (True, l\<lparr>logLevel := lv\<rparr>) else (False, l))"

definition ChangeLogCreator :: "'m Logtor \<Rightarrow> LogCreatorName \<Rightarrow> bool \<times> 'm Logtor" where
  "ChangeLogCreator l logCreatorName =
     (case map_of (logCreatorList l) logCreatorName of
        None \<Rightarrow> (False, l)
      | Some c \<Rightarrow> (True, l\<lparr>currentLogCreator := c\<rparr>))"

text \<open>
  \<^verbatim>\<open>LogIt\<close>: the first condition, then the \<^verbatim>\<open>else if\<close>, then \<^verbatim>\<open>return false\<close>.
  Each condition calls \<^verbatim>\<open>IsReady\<close> on the current creator for itself. The second
  condition reaches its call only for an accepted level, that is after the first
  condition made call 0 and was answered false, so its call is call 1. The result is
  the boolean returned and the trace of deliveries, or the panic.
\<close>

definition LogIt ::
  "'m Logtor \<Rightarrow> LogLevel \<Rightarrow> 'm \<Rightarrow> 'm delivery list \<Rightarrow> panic + (bool \<times> 'm delivery list)" where
  "LogIt l level logMessage tr =
     (case and_also (method_IsLogLevelAcceptable (logLevel l) level)
             (call_IsReady (currentLogCreator l) 0) of
        Inl e \<Rightarrow> Inl e
      | Inr True \<Rightarrow> call_LogIt (currentLogCreator l) level logMessage tr
      | Inr False \<Rightarrow>
          (case and_also (method_IsLogLevelAcceptable (logLevel l) level)
                  (negated (call_IsReady (currentLogCreator l) 1)) of
             Inl e \<Rightarrow> Inl e
           | Inr c2 \<Rightarrow>
               if c2 \<and> \<not> isNil (defaultCreator l)
               then call_LogIt (defaultCreator l) level logMessage tr
               else Inr (False, tr)))"

text \<open>
  \<^verbatim>\<open>LogItWithCallDepth\<close>: the same shape; its first condition calls the function
  \<^verbatim>\<open>types.IsLogLevelAcceptable(l.LogLevel(), level)\<close>, its second the method.
\<close>

definition LogItWithCallDepth ::
  "'m Logtor \<Rightarrow> LogLevel \<Rightarrow> int \<Rightarrow> 'm \<Rightarrow> 'm delivery list
     \<Rightarrow> panic + (bool \<times> 'm delivery list)" where
  "LogItWithCallDepth l level depth logMessage tr =
     (case and_also (IsLogLevelAcceptable (logLevel l) level)
             (call_IsReady (currentLogCreator l) 0) of
        Inl e \<Rightarrow> Inl e
      | Inr True \<Rightarrow> call_LogItWithCallDepth (currentLogCreator l) level depth logMessage tr
      | Inr False \<Rightarrow>
          (case and_also (method_IsLogLevelAcceptable (logLevel l) level)
                  (negated (call_IsReady (currentLogCreator l) 1)) of
             Inl e \<Rightarrow> Inl e
           | Inr c2 \<Rightarrow>
               if c2 \<and> \<not> isNil (defaultCreator l)
               then call_LogItWithCallDepth (defaultCreator l) level depth logMessage tr
               else Inr (False, tr)))"

text \<open>
  \<^verbatim>\<open>AddLogCreators\<close>. The loop tests each creator with
  \<^verbatim>\<open>logCreator != nil && !reflect.ValueOf(logCreator).IsNil()\<close> and stores it under its
  name when the test holds; the test itself panics on a creator of a kind without nil,
  and the loop ends there. After the loop, when no creator is current, the name of
  \<^verbatim>\<open>logCreators[0]\<close> is looked up: indexing an empty batch panics, and so does
  \<^verbatim>\<open>LogName\<close> on a nil first element.
\<close>

fun addAll ::
  "(LogCreatorName \<times> 'm LogCreator) list \<Rightarrow> 'm LogCreator list
     \<Rightarrow> panic + (LogCreatorName \<times> 'm LogCreator) list" where
  "addAll m [] = Inr m"
| "addAll m (c # cs) =
     (case and_also (\<not> isNil c) (negated (reflect_IsNil c)) of
        Inl e \<Rightarrow> Inl e
      | Inr True \<Rightarrow>
          (case call_LogName c of
             Inl e \<Rightarrow> Inl e
           | Inr n \<Rightarrow> addAll (AList.update n c m) cs)
      | Inr False \<Rightarrow> addAll m cs)"

definition AddLogCreators :: "'m Logtor \<Rightarrow> 'm LogCreator list \<Rightarrow> panic + 'm Logtor" where
  "AddLogCreators l logCreators =
     (case addAll (logCreatorList l) logCreators of
        Inl e \<Rightarrow> Inl e
      | Inr stored \<Rightarrow>
          (let l1 = l\<lparr>logCreatorList := stored\<rparr> in
           if isNil (currentLogCreator l1) then
             (case logCreators of
                [] \<Rightarrow> Inl IndexOutOfRange
              | c # _ \<Rightarrow>
                  (case call_LogName c of
                     Inl e \<Rightarrow> Inl e
                   | Inr n \<Rightarrow> Inr (snd (ChangeLogCreator l1 n))))
           else Inr l1))"

section \<open>The control surface (handler.go)\<close>

text \<open>
  \<^verbatim>\<open>ChangeActiveLogCreator\<close>. A request is its method and its body as the JSON decoder
  leaves it: \<open>None\<close> when decoding into \<^verbatim>\<open>map[string]string\<close> fails, the decoded
  map otherwise. The handler fills a struct of two strings, hands it to
  \<^verbatim>\<open>json.Marshal\<close> and writes the bytes it gets back with status 200, or answers
  500 when the encoder returns an error. A response is the status and the bytes written.

  Two things the handler uses are not declared in the sources and are parameters here.
  The encoder \<^verbatim>\<open>json.Marshal\<close> belongs to Go's library: \<open>marshal\<close> gives the bytes,
  or \<open>None\<close> for an error. The field \<^verbatim>\<open>l.activeLogCreator\<close> that the handler reads
  is not a field of the struct \<^verbatim>\<open>Logtor\<close> of logtor.go: \<open>activeLogCreator\<close> is
  its accessor.
\<close>

record request =
  reqMethod :: string
  reqBody :: "(string \<times> string) list option"

record changeResult =
  OldLogCreator :: string
  CurrentLogCreator :: string

record response =
  statusCode :: nat
  written :: string

definition statusOnly :: "nat \<Rightarrow> response" where
  "statusOnly n = \<lparr>statusCode = n, written = []\<rparr>"

definition writeJson :: "(changeResult \<Rightarrow> string option) \<Rightarrow> changeResult \<Rightarrow> response" where
  "writeJson marshal result =
     (case marshal result of
        None \<Rightarrow> statusOnly 500
      | Some jsonResult \<Rightarrow> \<lparr>statusCode = 200, written = jsonResult\<rparr>)"

definition ChangeActiveLogCreator ::
  "(changeResult \<Rightarrow> string option) \<Rightarrow> ('m Logtor \<Rightarrow> 'm LogCreator) \<Rightarrow> 'm Logtor \<Rightarrow> request
     \<Rightarrow> panic + (response \<times> 'm Logtor)" where
  "ChangeActiveLogCreator marshal activeLogCreator l r =
     (if length (logCreatorList l) = 0 then Inr (statusOnly 404, l)
      else if reqMethod r \<noteq> ''POST'' then Inr (statusOnly 400, l)
      else
        (case reqBody r of
           None \<Rightarrow> Inr (statusOnly 400, l)
         | Some payload \<Rightarrow>
             if length payload = 0 then Inr (statusOnly 400, l)
             else
               (case call_LogName (activeLogCreator l) of
                  Inl e \<Rightarrow> Inl e
                | Inr oldLogCreator \<Rightarrow>
                    (case map_of payload ''log_creator'' of
                       None \<Rightarrow>
                         Inr (writeJson marshal
                                \<lparr>OldLogCreator = oldLogCreator, CurrentLogCreator = []\<rparr>, l)
                     | Some v \<Rightarrow>
                         (case ChangeLogCreator l v of
                            (ok, l') \<Rightarrow>
                              Inr (writeJson marshal
                                     \<lparr>OldLogCreator = oldLogCreator,
                                      CurrentLogCreator = (if ok then v else oldLogCreator)\<rparr>,
                                   l'))))))"

section \<open>Vocabulary of the properties\<close>

text \<open>
  The implementation behind an interface value, if there is one; the creators of
  pointer kind of a batch, in order, which are what the loop of \<^verbatim>\<open>AddLogCreators\<close>
  stores; and the values on which the reflective nil test does not panic.
\<close>

definition impl_of :: "'m LogCreator \<Rightarrow> 'm creator option" where
  "impl_of c =
     (case c of
        NilInterface \<Rightarrow> None
      | NilPointer \<Rightarrow> None
      | Impl s \<Rightarrow> Some s
      | ValueImpl s \<Rightarrow> Some s)"



text \<open>
  Creators to run the operations on: a console, a file and a broker creator as the
  tests of the repository register them (the reference creators answer true to every
  write), the broker never ready; a second creator named like the console; and a
  creator that is not ready when first asked and ready when asked again.
\<close>

definition console :: "string creator" where
  "console = \<lparr>addr = 1, logName = ''Console'', callDepth = 3, isReady = (\<lambda>_. True),
     logIt = (\<lambda>_ _. True), logItWithCallDepth = (\<lambda>_ _ _. True)\<rparr>"

definition fileCreator :: "string creator" where
  "fileCreator = \<lparr>addr = 2, logName = ''File'', callDepth = 3, isReady = (\<lambda>_. True),
     logIt = (\<lambda>_ _. True), logItWithCallDepth = (\<lambda>_ _ _. True)\<rparr>"




definition registry :: "LogLevel \<Rightarrow> string creator \<Rightarrow> string LogCreator \<Rightarrow> string Logtor" where
  "registry threshold active fallback =
     \<lparr>logCreatorList = [(logName active, Impl active)], logLevel = threshold,
      currentLogCreator = Impl active, defaultCreator = fallback\<rparr>"

text \<open>
  An encoder for names that need no escaping, on which it writes what
  \<^verbatim>\<open>json.Marshal\<close> writes for the handler's struct.
\<close>

definition plainMarshal :: "changeResult \<Rightarrow> string option" where
  "plainMarshal result =
     Some (''{'' @ [CHR 0x22] @ ''old_log_creator'' @ [CHR 0x22] @ '':''
           @ [CHR 0x22] @ OldLogCreator result @ [CHR 0x22] @ '',''
           @ [CHR 0x22] @ ''current_log_creator'' @ [CHR 0x22] @ '':''
           @ [CHR 0x22] @ CurrentLogCreator result @ [CHR 0x22] @ ''}'')"

section \<open>The acceptance rule\<close>

lemmas level_defs = NONE_def FATAL_def ERROR_def WARN_def DEBUG_def INFO_def TRACE_def

lemma method_accept: "method_IsLogLevelAcceptable T L = IsLogLevelAcceptable T L"
  by (simp add: method_IsLogLevelAcceptable_def)

lemma not_record_level_rejected:
  "L \<notin> set recordLevels \<Longrightarrow> \<not> IsLogLevelAcceptable T L"
  by (simp add: IsLogLevelAcceptable_def recordLevels_def)

text \<open>
  Claim C1. For every threshold \<open>T\<close> and candidate \<open>L\<close>, \<^verbatim>\<open>IsLogLevelAcceptable\<close>
  returns true exactly when both have a rank under FATAL = 1, ERROR = 2, WARN = 3,
  DEBUG = 4, INFO = 5, TRACE = 6 and the rank of \<open>L\<close> is at most the rank of \<open>T\<close>;
  with threshold NONE, which has no rank, it returns false for every \<open>L\<close>.
\<close>

theorem IsLogLevelAcceptable_iff_rank:
  "(IsLogLevelAcceptable T L \<longleftrightarrow>
      (\<exists>t c. spec_rank T = Some t \<and> spec_rank L = Some c \<and> c \<le> t))
   \<and> (IsLogLevelAcceptable NONE L \<longleftrightarrow> False)
   \<and> map spec_rank recordLevels = [Some 1, Some 2, Some 3, Some 4, Some 5, Some 6]
   \<and> spec_rank NONE = None"
  unfolding IsLogLevelAcceptable_def spec_rank_def recordLevels_def level_defs
  by simp

section \<open>Dispatch\<close>

lemma LogIt_rejected:
  "\<not> IsLogLevelAcceptable (logLevel l) L \<Longrightarrow> LogIt l L m tr = Inr (False, tr)"
  by (simp add: LogIt_def method_accept and_also_def)

lemma LogItWithCallDepth_rejected:
  "\<not> IsLogLevelAcceptable (logLevel l) L \<Longrightarrow>
     LogItWithCallDepth l L d m tr = Inr (False, tr)"
  by (simp add: LogItWithCallDepth_def method_accept and_also_def)

lemma accepted_examples:
  "IsLogLevelAcceptable TRACE INFO" "\<not> IsLogLevelAcceptable FATAL ERROR"
  by (simp_all add: IsLogLevelAcceptable_def level_defs)

lemma impl_of_Some:
  "impl_of c = Some s \<Longrightarrow> c = Impl s \<or> c = ValueImpl s"
  by (cases c) (simp_all add: impl_of_def)




text \<open>
  Claim C3. For a level that the threshold does not accept (threshold FATAL and level
  ERROR, say), \<^verbatim>\<open>LogIt\<close> and \<^verbatim>\<open>LogItWithCallDepth\<close> return false and call no
  write method, of the current creator or of the default one: the trace is as before.
  This holds for every registry, so for every one whose current creator is set.
\<close>

theorem LogIt_rejected_level_no_delivery:
  "\<not> IsLogLevelAcceptable (logLevel l) L \<Longrightarrow>
     LogIt l L m tr = Inr (False, tr) \<and> LogItWithCallDepth l L d m tr = Inr (False, tr)"
  by (simp add: LogIt_rejected LogItWithCallDepth_rejected)

theorem LogIt_rejected_level_no_delivery_witness:
  "\<not> IsLogLevelAcceptable FATAL ERROR
   \<and> LogIt (registry FATAL console (Impl fileCreator)) ERROR ''y'' [] = Inr (False, [])
   \<and> LogItWithCallDepth (registry FATAL console (Impl fileCreator)) ERROR 0 ''y'' [] =
       Inr (False, [])"
proof -
  have rej: "\<not> IsLogLevelAcceptable (logLevel (registry FATAL console (Impl fileCreator))) ERROR"
    by (simp add: registry_def accepted_examples)
  from LogIt_rejected_level_no_delivery [OF rej, of "''y''" "[]" 0]
  show ?thesis by (simp add: accepted_examples)
qed

text \<open>
  Claim C10. A candidate that is not one of the six record levels FATAL, ERROR, WARN,
  DEBUG, INFO, TRACE (NONE, or any other string) is accepted at no threshold, so
  \<^verbatim>\<open>LogIt\<close> with such a level returns false and calls no write method, whatever the
  registry and its threshold.
\<close>

theorem LogIt_non_record_level_rejected:
  "U \<notin> set recordLevels \<Longrightarrow>
     \<not> IsLogLevelAcceptable T U \<and> LogIt l U m tr = Inr (False, tr)"
  by (simp add: not_record_level_rejected LogIt_rejected)

theorem LogIt_non_record_level_rejected_witness:
  "NONE \<notin> set recordLevels
   \<and> \<not> IsLogLevelAcceptable TRACE NONE
   \<and> LogIt (registry TRACE console (Impl fileCreator)) NONE ''z'' [] = Inr (False, [])
   \<and> ''verbose'' \<notin> set recordLevels
   \<and> \<not> IsLogLevelAcceptable TRACE ''verbose''
   \<and> LogIt (registry TRACE console (Impl fileCreator)) ''verbose'' ''z'' [] = Inr (False, [])"
proof -
  have n1: "NONE \<notin> set recordLevels" and n2: "''verbose'' \<notin> set recordLevels"
    by (simp_all add: recordLevels_def level_defs)
  from LogIt_non_record_level_rejected [OF n1, of TRACE _ "''z''" "[]"]
       LogIt_non_record_level_rejected [OF n2, of TRACE _ "''z''" "[]"] n1 n2
  show ?thesis by simp
qed

text \<open>
  Claim C4 (the code departs from it). With no current creator, \<^verbatim>\<open>LogIt\<close> returns
  false only for a level the threshold rejects; for an accepted level it calls
  \<^verbatim>\<open>IsReady\<close> on the nil interface and panics. A fresh registry whose threshold was
  set to TRACE panics on \<^verbatim>\<open>LogIt(INFO, m)\<close>.
\<close>

theorem LogIt_without_current_creator:
  "LogIt (l\<lparr>currentLogCreator := NilInterface\<rparr>) L m tr =
     (if IsLogLevelAcceptable (logLevel l) L then Inl NilDereference else Inr (False, tr))
   \<and> SetLogLevel New TRACE = (True, New\<lparr>logLevel := TRACE\<rparr>)
   \<and> currentLogCreator (snd (SetLogLevel New TRACE)) = NilInterface
   \<and> LogIt (snd (SetLogLevel New TRACE)) INFO m tr = Inl NilDereference"
  by (simp add: LogIt_def method_accept and_also_def call_IsReady_def SetLogLevel_def
      IsValid_def LogLevelList_def New_def accepted_examples)

section \<open>Registration and activation\<close>



text \<open>
  Claim C5 (the code departs from it). With no current creator, registering an empty
  batch panics on \<^verbatim>\<open>logCreators[0]\<close>, and registering a batch of nil creators panics
  on \<^verbatim>\<open>logCreators[0].LogName()\<close>. Only with a current creator set is such a call
  the no-op the claim describes.
\<close>

theorem AddLogCreators_empty_or_nil_batch:
  "AddLogCreators (l\<lparr>currentLogCreator := NilInterface\<rparr>) [] = Inl IndexOutOfRange
   \<and> AddLogCreators New [] = Inl IndexOutOfRange
   \<and> AddLogCreators New [NilInterface] = Inl NilDereference
   \<and> AddLogCreators New [NilPointer, NilInterface] = Inl NilDereference
   \<and> AddLogCreators (l\<lparr>currentLogCreator := Impl a\<rparr>) [] =
       Inr (l\<lparr>currentLogCreator := Impl a\<rparr>)
   \<and> AddLogCreators (l\<lparr>currentLogCreator := Impl a\<rparr>) [NilPointer, NilInterface] =
       Inr (l\<lparr>currentLogCreator := Impl a\<rparr>)"
  by (simp add: AddLogCreators_def New_def isNil_def call_LogName_def and_also_def
      negated_def reflect_IsNil_def)




section \<open>The threshold\<close>

text \<open>
  Claim C7. For every string that is not one of the seven levels, \<^verbatim>\<open>SetLogLevel\<close>
  returns false and leaves the registry, so its threshold, as it is; for each of the
  seven levels it returns true and the threshold is that level, nothing else changed.
\<close>

theorem SetLogLevel_valid_or_unchanged:
  "(S \<notin> {''NONE'', ''FATAL'', ''ERROR'', ''WARN'', ''DEBUG'', ''INFO'', ''TRACE''} \<longrightarrow>
      SetLogLevel l S = (False, l) \<and> logLevel (snd (SetLogLevel l S)) = logLevel l)
   \<and> (S \<in> {''NONE'', ''FATAL'', ''ERROR'', ''WARN'', ''DEBUG'', ''INFO'', ''TRACE''} \<longrightarrow>
      SetLogLevel l S = (True, l\<lparr>logLevel := S\<rparr>) \<and> logLevel (snd (SetLogLevel l S)) = S)"
  by (auto simp: SetLogLevel_def IsValid_def LogLevelList_def level_defs)

theorem SetLogLevel_valid_or_unchanged_witness:
  "SetLogLevel (registry TRACE console NilInterface) ''VERBOSE'' =
     (False, registry TRACE console NilInterface)
   \<and> logLevel (snd (SetLogLevel (registry TRACE console NilInterface) ''VERBOSE'')) = TRACE
   \<and> SetLogLevel (registry TRACE console NilInterface) ''ERROR'' =
     (True, registry ERROR console NilInterface)
   \<and> logLevel (snd (SetLogLevel (registry TRACE console NilInterface) ''ERROR'')) = ERROR"
proof -
  have bad: "''VERBOSE'' \<notin> {''NONE'', ''FATAL'', ''ERROR'', ''WARN'', ''DEBUG'', ''INFO'', ''TRACE''}"
    and good: "''ERROR'' \<in> {''NONE'', ''FATAL'', ''ERROR'', ''WARN'', ''DEBUG'', ''INFO'', ''TRACE''}"
    by simp_all
  from SetLogLevel_valid_or_unchanged [of "''VERBOSE''" "registry TRACE console NilInterface"] bad
  have "SetLogLevel (registry TRACE console NilInterface) ''VERBOSE'' =
      (False, registry TRACE console NilInterface)"
    by blast
  moreover
  from SetLogLevel_valid_or_unchanged [of "''ERROR''" "registry TRACE console NilInterface"] good
  have "SetLogLevel (registry TRACE console NilInterface) ''ERROR'' =
      (True, (registry TRACE console NilInterface)\<lparr>logLevel := ''ERROR''\<rparr>)"
    by blast
  ultimately show ?thesis
    by (simp add: registry_def level_defs)
qed

section \<open>Activation by name\<close>

text \<open>
  Claim C8. For a name that is not registered, \<^verbatim>\<open>ChangeLogCreator\<close> returns false and
  leaves the registry, so its current creator, as it is. And the handler
  \<^verbatim>\<open>ChangeActiveLogCreator\<close>, on a registry that has creators and an active one,
  given a POST whose payload asks for such a name, leaves the registry as it is and
  hands the encoder a result whose old and current fields are both the active
  creator's name: it answers 200 with the bytes the encoder gives for that result
  (500 if the encoder fails), whatever the encoder and whichever field holds the
  active creator.
\<close>

theorem ChangeLogCreator_unknown_name:
  "name \<notin> fst ` set (logCreatorList l) \<Longrightarrow>
     ChangeLogCreator l name = (False, l)
     \<and> (logCreatorList l \<noteq> [] \<longrightarrow> impl_of (activeLogCreator l) = Some a \<longrightarrow>
          map_of payload ''log_creator'' = Some name \<longrightarrow>
          ChangeActiveLogCreator marshal activeLogCreator l
              \<lparr>reqMethod = ''POST'', reqBody = Some payload\<rparr> =
            Inr (writeJson marshal
                   \<lparr>OldLogCreator = logName a, CurrentLogCreator = logName a\<rparr>, l)
          \<and> statusCode (writeJson marshal
                   \<lparr>OldLogCreator = logName a, CurrentLogCreator = logName a\<rparr>) =
              (if marshal \<lparr>OldLogCreator = logName a, CurrentLogCreator = logName a\<rparr> = None
               then 500 else 200))"
proof -
  assume "name \<notin> fst ` set (logCreatorList l)"
  then have unknown: "map_of (logCreatorList l) name = None"
    by (simp add: map_of_eq_None_iff)
  then have same: "ChangeLogCreator l name = (False, l)"
    by (simp add: ChangeLogCreator_def)
  have handler: "ChangeActiveLogCreator marshal activeLogCreator l
        \<lparr>reqMethod = ''POST'', reqBody = Some payload\<rparr> =
      Inr (writeJson marshal
             \<lparr>OldLogCreator = logName a, CurrentLogCreator = logName a\<rparr>, l)"
    if "logCreatorList l \<noteq> []" "impl_of (activeLogCreator l) = Some a"
      "map_of payload ''log_creator'' = Some name"
  proof -
    from that(3) have "payload \<noteq> []" by auto
    moreover from that(2) have "call_LogName (activeLogCreator l) = Inr (logName a)"
      by (auto dest!: impl_of_Some simp: call_LogName_def)
    ultimately show ?thesis
      using that same by (simp add: ChangeActiveLogCreator_def)
  qed
  have status: "statusCode (writeJson marshal r) = (if marshal r = None then 500 else 200)"
    for r
    by (cases "marshal r") (simp_all add: writeJson_def statusOnly_def)
  from same handler status show ?thesis by blast
qed

theorem ChangeLogCreator_unknown_name_witness:
  "ChangeLogCreator (registry TRACE console NilInterface) ''nonexistent'' =
     (False, registry TRACE console NilInterface)
   \<and> ChangeActiveLogCreator plainMarshal currentLogCreator (registry TRACE console NilInterface)
       \<lparr>reqMethod = ''POST'', reqBody = Some [(''log_creator'', ''nonexistent'')]\<rparr> =
     Inr (\<lparr>statusCode = 200,
           written = ''{'' @ [CHR 0x22] @ ''old_log_creator'' @ [CHR 0x22] @ '':''
             @ [CHR 0x22] @ ''Console'' @ [CHR 0x22] @ '',''
             @ [CHR 0x22] @ ''current_log_creator'' @ [CHR 0x22] @ '':''
             @ [CHR 0x22] @ ''Console'' @ [CHR 0x22] @ ''}''\<rparr>,
          registry TRACE console NilInterface)"
proof -
  have unk: "''nonexistent'' \<notin> fst ` set (logCreatorList (registry TRACE console NilInterface))"
    by (simp add: registry_def console_def)
  have ne: "logCreatorList (registry TRACE console NilInterface) \<noteq> []"
    and cur: "impl_of (currentLogCreator (registry TRACE console NilInterface)) = Some console"
    by (simp_all add: registry_def impl_of_def)
  have pl: "map_of [(''log_creator'', ''nonexistent'')] ''log_creator'' = Some ''nonexistent''"
    by simp
  from ChangeLogCreator_unknown_name [OF unk, of currentLogCreator console
      "[(''log_creator'', ''nonexistent'')]" plainMarshal] ne cur pl
  show ?thesis by (simp add: console_def writeJson_def plainMarshal_def)
qed

end
